theory Spec2Isabelle
  imports Main "HOL-Library.Option_ord"
begin

section \<open>Python values and strings\<close>

text \<open>
  A Python \<open>str\<close> is modelled as a \<^typ>\<open>string\<close> of ASCII characters; the
  feed (IRS EO BMF) is ASCII. Characters above 127 are carried through
  unchanged by \<open>upper\<close> and are not whitespace.
  A value read from a \<open>csv.DictReader\<close> row is a string, or \<open>None\<close> when the
  row is shorter than the header.
\<close>

datatype pyval = PyNone | PyStr string

datatype error =
  AttributeError | IntegrityError | ValueError | OperationalError | OverflowError

text \<open>\<open>str(code)\<close>: the identity on strings, the text \<open>None\<close> on \<open>None\<close>.\<close>

fun str_of :: "pyval \<Rightarrow> string" where
  "str_of PyNone = ''None''"
| "str_of (PyStr s) = s"

text \<open>
  \<open>str.isspace\<close> on ASCII: tab, line feed, vertical tab, form feed, carriage
  return, the four separators 0x1C..0x1F and the space.
\<close>

definition is_space :: "char \<Rightarrow> bool" where
  "is_space c = (let n = (of_char c :: nat) in (9 \<le> n \<and> n \<le> 13) \<or> (28 \<le> n \<and> n \<le> 32))"

definition strip :: "string \<Rightarrow> string" where
  "strip s = rev (dropWhile is_space (rev (dropWhile is_space s)))"

definition upper_char :: "char \<Rightarrow> char" where
  "upper_char c = (let n = (of_char c :: nat) in if 97 \<le> n \<and> n \<le> 122 then char_of (n - 32) else c)"

definition lower_char :: "char \<Rightarrow> char" where
  "lower_char c = (let n = (of_char c :: nat) in if 65 \<le> n \<and> n \<le> 90 then char_of (n + 32) else c)"

definition upper :: "string \<Rightarrow> string" where
  "upper s = map upper_char s"

definition lower :: "string \<Rightarrow> string" where
  "lower s = map lower_char s"

text \<open>\<open>d.get(k, default)\<close> on a dictionary.\<close>

definition dict_get :: "('k \<rightharpoonup> 'v) \<Rightarrow> 'k \<Rightarrow> 'v \<Rightarrow> 'v" where
  "dict_get d k dflt = (case d k of None \<Rightarrow> dflt | Some v \<Rightarrow> v)"

section \<open>The IRS processor: code tables\<close>

definition AMOUNT_CODES :: "(string \<times> int) list" where
  "AMOUNT_CODES =
    [('''', 0),
     (''0'', 0),
     (''1'', 5000),
     (''2'', 25000),
     (''3'', 62500),
     (''4'', 175000),
     (''5'', 375000),
     (''6'', 750000),
     (''7'', 2500000),
     (''8'', 7500000),
     (''9'', 25000000),
     (''A'', 75000000),
     (''B'', 175000000),
     (''C'', 375000000),
     (''D'', 750000000)]"

definition NTEE_CATEGORIES :: "(string \<times> string) list" where
  "NTEE_CATEGORIES =
    [(''A'', ''Arts, Culture & Humanities''),
     (''B'', ''Education''),
     (''C'', ''Environment''),
     (''D'', ''Animal-Related''),
     (''E'', ''Health Care''),
     (''F'', ''Mental Health & Crisis Intervention''),
     (''G'', ''Diseases, Disorders & Medical Disciplines''),
     (''H'', ''Medical Research''),
     (''I'', ''Crime & Legal-Related''),
     (''J'', ''Employment''),
     (''K'', ''Food, Agriculture & Nutrition''),
     (''L'', ''Housing & Shelter''),
     (''M'', ''Public Safety, Disaster Preparedness & Relief''),
     (''N'', ''Recreation & Sports''),
     (''O'', ''Youth Development''),
     (''P'', ''Human Services''),
     (''Q'', ''International, Foreign Affairs & National Security''),
     (''R'', ''Civil Rights, Social Action & Advocacy''),
     (''S'', ''Community Improvement & Capacity Building''),
     (''T'', ''Philanthropy, Voluntarism & Grantmaking Foundations''),
     (''U'', ''Science & Technology''),
     (''V'', ''Social Science''),
     (''W'', ''Public & Societal Benefit''),
     (''X'', ''Religion-Related''),
     (''Y'', ''Mutual & Membership Benefit''),
     (''Z'', ''Unknown'')]"

text \<open>
  \<open>IRSDataProcessor._parse_amount_code\<close>:
  \<^verbatim>\<open>code = str(code).strip().upper(); return self.AMOUNT_CODES.get(code, 0)\<close>
\<close>

definition parse_amount_code :: "pyval \<Rightarrow> int" where
  "parse_amount_code code =
     dict_get (map_of AMOUNT_CODES) (upper (strip (str_of code))) 0"

section \<open>The record parser\<close>

text \<open>
  An organization dictionary has string keys; the model fixes the keys the
  code reads or writes and records for each whether the key is absent
  (\<open>Missing\<close>) or present with a value (\<open>None\<close> or a proper value).
\<close>

datatype 'a entry = Missing | Value "'a option"

text \<open>\<open>org.get(k)\<close> and \<open>org.get(k, default)\<close>.\<close>

fun py_get :: "'a entry \<Rightarrow> 'a option" where
  "py_get Missing = None"
| "py_get (Value v) = v"

fun py_get_default :: "'a entry \<Rightarrow> 'a \<Rightarrow> 'a option" where
  "py_get_default Missing d = Some d"
| "py_get_default (Value v) d = v"

record org_dict =
  org_ein :: "string entry"
  org_name :: "string entry"
  org_legal_name :: "string entry"
  org_street :: "string entry"
  org_city :: "string entry"
  org_state :: "string entry"
  org_zip :: "string entry"
  org_subsection_code :: "string entry"
  org_ntee_code :: "string entry"
  org_foundation_code :: "string entry"
  org_asset_amount :: "int entry"
  org_income_amount :: "int entry"
  org_revenue_amount :: "int entry"
  org_tax_exempt_status :: "string entry"
  org_ruling_date :: "string entry"
  org_tax_period :: "string entry"
  org_group_exemption :: "string entry"
  org_deductibility :: "string entry"
  org_activity_codes :: "string entry"
  org_organization_code :: "string entry"
  org_data_source :: "string entry"
  org_ntee_description :: "string entry"

type_synonym raw_row = "string \<rightharpoonup> pyval"

text \<open>\<open>v.strip()\<close>: \<open>None\<close> has no such method.\<close>

fun py_strip :: "pyval \<Rightarrow> error + string" where
  "py_strip PyNone = Inl AttributeError"
| "py_strip (PyStr s) = Inr (strip s)"

text \<open>\<open>row.get(k, '').strip()\<close>\<close>

definition field :: "raw_row \<Rightarrow> string \<Rightarrow> error + string" where
  "field row k = py_strip (dict_get row k (PyStr []))"

text \<open>Sequencing of computations that may raise.\<close>

fun and_then :: "error + 'a \<Rightarrow> ('a \<Rightarrow> error + 'b) \<Rightarrow> error + 'b" where
  "and_then (Inl e) f = Inl e"
| "and_then (Inr x) f = f x"

text \<open>
  The last step of \<open>_parse_eo_row\<close>: when \<open>org['ntee_code']\<close> is not empty, its
  first character is looked up in \<open>NTEE_CATEGORIES\<close> and the description is
  stored under the key \<open>ntee_description\<close>.
\<close>

definition add_ntee_description :: "org_dict \<Rightarrow> org_dict" where
  "add_ntee_description org =
     (case py_get (org_ntee_code org) of
        Some (category_code # rest) \<Rightarrow>
          org \<lparr> org_ntee_description :=
            Value (Some (dict_get (map_of NTEE_CATEGORIES) [category_code] ''Unknown'')) \<rparr>
      | _ \<Rightarrow> org)"

text \<open>
  \<open>IRSDataProcessor._parse_eo_row\<close>. The fields are evaluated in the order of
  the dictionary literal; the three amounts go through \<open>str(code)\<close> and never
  raise, so their place in the order does not matter.
\<close>

definition parse_eo_row :: "raw_row \<Rightarrow> error + org_dict option" where
  "parse_eo_row row =
     and_then (field row ''EIN'') (\<lambda>ein.
     if ein = [] then Inr None else
     and_then (field row ''NAME'') (\<lambda>name.
     and_then (field row ''STREET'') (\<lambda>street.
     and_then (field row ''CITY'') (\<lambda>city.
     and_then (field row ''STATE'') (\<lambda>state.
     and_then (field row ''ZIP'') (\<lambda>zip_code.
     and_then (field row ''SUBSECTION'') (\<lambda>subsection.
     and_then (field row ''NTEE_CD'') (\<lambda>ntee.
     and_then (field row ''FOUNDATION'') (\<lambda>foundation.
     and_then (field row ''STATUS'') (\<lambda>status.
     and_then (field row ''RULING'') (\<lambda>ruling.
     and_then (field row ''TAX_PERIOD'') (\<lambda>tax_period.
     and_then (field row ''GEN'') (\<lambda>gen.
     and_then (field row ''DEDUCTIBILITY'') (\<lambda>deductibility.
     and_then (field row ''ACTIVITY'') (\<lambda>activity.
     and_then (field row ''ORGANIZATION'') (\<lambda>organization.
     let org = \<lparr>
           org_ein = Value (Some ein),
           org_name = Value (Some (take 500 name)),
           org_legal_name = Missing,
           org_street = Value (Some street),
           org_city = Value (Some city),
           org_state = Value (Some (take 2 state)),
           org_zip = Value (Some (take 10 zip_code)),
           org_subsection_code = Value (Some subsection),
           org_ntee_code = Value (Some ntee),
           org_foundation_code = Value (Some foundation),
           org_asset_amount =
             Value (Some (parse_amount_code (dict_get row ''ASSET_AMT'' (PyStr [])))),
           org_income_amount =
             Value (Some (parse_amount_code (dict_get row ''INCOME_AMT'' (PyStr [])))),
           org_revenue_amount =
             Value (Some (parse_amount_code (dict_get row ''REVENUE_AMT'' (PyStr [])))),
           org_tax_exempt_status = Value (Some status),
           org_ruling_date = Value (Some ruling),
           org_tax_period = Value (Some tax_period),
           org_group_exemption = Value (Some gen),
           org_deductibility = Value (Some deductibility),
           org_activity_codes = Value (Some activity),
           org_organization_code = Value (Some organization),
           org_data_source = Value (Some ''IRS_EO_BMF''),
           org_ntee_description = Missing \<rparr>
     in Inr (Some (add_ntee_description org))
     ))))))))))))))))"

section \<open>The ingestion pipeline\<close>

text \<open>
  Reading a partition yields rows until the file ends or the reader raises
  (\<open>ReadError\<close>, which also stands for a file that cannot be opened).
\<close>

datatype read_item = Item raw_row | ReadError

type_synonym eo_file = "read_item list"

text \<open>
  \<open>IRSDataProcessor.parse_eo_bmf\<close>: an exception of the row parser is caught
  per row and the row is skipped; an exception of the reader ends the loop;
  the result is the list of organizations and nothing else.
\<close>

fun parse_eo_bmf :: "eo_file \<Rightarrow> org_dict list" where
  "parse_eo_bmf [] = []"
| "parse_eo_bmf (ReadError # rest) = []"
| "parse_eo_bmf (Item row # rest) =
     (case parse_eo_row row of
        Inr (Some org) \<Rightarrow> org # parse_eo_bmf rest
      | Inr None \<Rightarrow> parse_eo_bmf rest
      | Inl e \<Rightarrow> parse_eo_bmf rest)"

text \<open>
  The outside world of one run: for each region the outcome of its download,
  whether Publication 78 could be downloaded, and the clock readings at the
  start and at the end.
\<close>

datatype download = Failed | Downloaded eo_file

record environment =
  env_regions :: "download list"
  env_pub78 :: bool
  env_started :: int
  env_completed :: int

text \<open>\<open>download_eo_bmf\<close>: a failed region is logged and skipped.\<close>

fun download_eo_bmf :: "download list \<Rightarrow> eo_file list" where
  "download_eo_bmf [] = []"
| "download_eo_bmf (Failed # regs) = download_eo_bmf regs"
| "download_eo_bmf (Downloaded f # regs) = f # download_eo_bmf regs"

record run_stats =
  started_at :: int
  eo_bmf_files :: nat
  organizations_processed :: nat
  errors :: nat
  pub78_downloaded :: "bool option"
  completed_at :: int
  duration :: int

text \<open>
  \<open>IRSDataProcessor.process_all_data\<close> returns the statistics and the batch;
  the third component lists the contents written to the processed directory.
\<close>

definition process_all_data ::
  "environment \<Rightarrow> run_stats \<times> org_dict list \<times> org_dict list list" where
  "process_all_data env =
     (let downloaded_files = download_eo_bmf (env_regions env);
          stats = \<lparr> started_at = env_started env,
                    eo_bmf_files = 0,
                    organizations_processed = 0,
                    errors = 0,
                    pub78_downloaded = (if env_pub78 env then Some True else None),
                    completed_at = env_completed env,
                    duration = env_completed env - env_started env \<rparr>
      in if downloaded_files \<noteq> [] then
           (let all_organizations = concat (map parse_eo_bmf downloaded_files)
            in (stats \<lparr> eo_bmf_files := length downloaded_files,
                        organizations_processed := length all_organizations \<rparr>,
                all_organizations,
                [all_organizations]))
         else (stats, [], []))"

section \<open>The storage engine\<close>

text \<open>
  A row of table \<open>organizations\<close>. \<open>ein\<close> and \<open>name\<close> are \<open>NOT NULL\<close>; every
  other column may hold \<open>NULL\<close> (\<open>None\<close>). Text columns hold strings and the
  three amounts hold integers of SQLite's range. The two timestamp columns
  are left out.
\<close>

record row =
  row_id :: nat
  row_ein :: string
  row_name :: string
  row_legal_name :: "string option"
  row_street :: "string option"
  row_city :: "string option"
  row_state :: "string option"
  row_zip :: "string option"
  row_country :: "string option"
  row_ntee_code :: "string option"
  row_ntee_description :: "string option"
  row_subsection_code :: "string option"
  row_foundation_code :: "string option"
  row_organization_type :: "string option"
  row_asset_amount :: "int option"
  row_income_amount :: "int option"
  row_revenue_amount :: "int option"
  row_tax_exempt_status :: "string option"
  row_ruling_date :: "string option"
  row_tax_period :: "string option"
  row_revocation_date :: "string option"
  row_website :: "string option"
  row_email :: "string option"
  row_phone :: "string option"
  row_data_source :: "string option"

text \<open>
  The table in rowid order, and the largest rowid ever handed out
  (\<open>AUTOINCREMENT\<close>).
\<close>

record database =
  db_rows :: "row list"
  db_seq :: nat

text \<open>\<open>DatabaseManager.init_database\<close> on a fresh file: an empty table.\<close>

definition init_database :: database where
  "init_database = \<lparr> db_rows = [], db_seq = 0 \<rparr>"

text \<open>The sixteen values bound to one \<open>INSERT OR REPLACE\<close>.\<close>

record data_tuple =
  t_ein :: "string option"
  t_name :: "string option"
  t_legal_name :: "string option"
  t_street :: "string option"
  t_city :: "string option"
  t_state :: "string option"
  t_zip :: "string option"
  t_ntee_code :: "string option"
  t_subsection_code :: "string option"
  t_foundation_code :: "string option"
  t_asset_amount :: "int option"
  t_income_amount :: "int option"
  t_revenue_amount :: "int option"
  t_tax_exempt_status :: "string option"
  t_ruling_date :: "string option"
  t_data_source :: "string option"

definition make_data_tuple :: "org_dict \<Rightarrow> data_tuple" where
  "make_data_tuple org =
     \<lparr> t_ein = py_get (org_ein org),
       t_name = py_get (org_name org),
       t_legal_name = py_get (org_legal_name org),
       t_street = py_get (org_street org),
       t_city = py_get (org_city org),
       t_state = py_get (org_state org),
       t_zip = py_get (org_zip org),
       t_ntee_code = py_get (org_ntee_code org),
       t_subsection_code = py_get (org_subsection_code org),
       t_foundation_code = py_get (org_foundation_code org),
       t_asset_amount = py_get_default (org_asset_amount org) 0,
       t_income_amount = py_get_default (org_income_amount org) 0,
       t_revenue_amount = py_get_default (org_revenue_amount org) 0,
       t_tax_exempt_status = py_get (org_tax_exempt_status org),
       t_ruling_date = py_get (org_ruling_date org),
       t_data_source = py_get_default (org_data_source org) ''IRS'' \<rparr>"

text \<open>
  The row an insert creates: the bound values, and the column defaults for
  the columns the statement does not list.
\<close>

definition new_row :: "nat \<Rightarrow> string \<Rightarrow> string \<Rightarrow> data_tuple \<Rightarrow> row" where
  "new_row i e n t =
     \<lparr> row_id = i,
       row_ein = e,
       row_name = n,
       row_legal_name = t_legal_name t,
       row_street = t_street t,
       row_city = t_city t,
       row_state = t_state t,
       row_zip = t_zip t,
       row_country = Some ''US'',
       row_ntee_code = t_ntee_code t,
       row_ntee_description = None,
       row_subsection_code = t_subsection_code t,
       row_foundation_code = t_foundation_code t,
       row_organization_type = None,
       row_asset_amount = t_asset_amount t,
       row_income_amount = t_income_amount t,
       row_revenue_amount = t_revenue_amount t,
       row_tax_exempt_status = t_tax_exempt_status t,
       row_ruling_date = t_ruling_date t,
       row_tax_period = None,
       row_revocation_date = None,
       row_website = None,
       row_email = None,
       row_phone = None,
       row_data_source = t_data_source t \<rparr>"

text \<open>
  An integer bound to a statement parameter has to fit SQLite's \<open>INTEGER\<close>, a
  signed 64-bit value; the \<open>sqlite3\<close> module raises \<open>OverflowError\<close> for any
  other Python integer. \<open>None\<close> is bound as \<open>NULL\<close>.
\<close>

definition sqlite_integer :: "int \<Rightarrow> bool" where
  "sqlite_integer x = (- 9223372036854775808 \<le> x \<and> x \<le> 9223372036854775807)"

fun bindable :: "int option \<Rightarrow> bool" where
  "bindable None = True"
| "bindable (Some x) = sqlite_integer x"

text \<open>
  One \<open>INSERT OR REPLACE INTO organizations\<close>. The values are bound first: an
  amount outside the 64-bit range raises. Then the statement runs: a \<open>NULL\<close>
  in a \<open>NOT NULL\<close> column without default aborts it; a row with the same \<open>ein\<close>
  (\<open>UNIQUE\<close>) is deleted before the new row is inserted under a fresh rowid.
\<close>

definition insert_or_replace :: "database \<Rightarrow> data_tuple \<Rightarrow> error + database" where
  "insert_or_replace db t =
     (if \<not> (bindable (t_asset_amount t) \<and> bindable (t_income_amount t) \<and>
             bindable (t_revenue_amount t))
      then Inl OverflowError
      else
        (case t_ein t of
           None \<Rightarrow> Inl IntegrityError
         | Some e \<Rightarrow>
             (case t_name t of
                None \<Rightarrow> Inl IntegrityError
              | Some n \<Rightarrow>
                  Inr \<lparr> db_rows = filter (\<lambda>r. row_ein r \<noteq> e) (db_rows db)
                                    @ [new_row (Suc (db_seq db)) e n t],
                        db_seq = Suc (db_seq db) \<rparr>)))"

text \<open>\<open>conn.executemany(insert_sql, data_tuples)\<close>: stops at the first error.\<close>

fun executemany :: "database \<Rightarrow> data_tuple list \<Rightarrow> error + database" where
  "executemany db [] = Inr db"
| "executemany db (t # ts) =
     (case insert_or_replace db t of
        Inl e \<Rightarrow> Inl e
      | Inr db' \<Rightarrow> executemany db' ts)"

text \<open>
  The batch loop of \<open>insert_organizations\<close> for a positive batch size, on
  the records not yet handed over. A batch is committed after its
  \<open>executemany\<close>; when \<open>executemany\<close> raises, the exception leaves the
  function, the connection is dropped without a commit and the open batch is
  rolled back: the database is the one after the last committed batch.
\<close>

function insert_batches ::
  "database \<Rightarrow> org_dict list \<Rightarrow> nat \<Rightarrow> nat \<Rightarrow> database \<times> (error + nat)" where
  "insert_batches db organizations batch_size total_inserted =
     (if organizations = [] \<or> batch_size = 0 then (db, Inr total_inserted)
      else
        (let batch = take batch_size organizations in
         case executemany db (map make_data_tuple batch) of
           Inl e \<Rightarrow> (db, Inl e)
         | Inr db' \<Rightarrow>
             insert_batches db' (drop batch_size organizations) batch_size
               (total_inserted + length batch)))"
  by pat_completeness auto
termination
  by (relation "measure (\<lambda>(db, organizations, batch_size, total_inserted). length organizations)")
     auto

text \<open>
  \<open>DatabaseManager.insert_organizations\<close>: \<open>range(0, len(organizations),
  batch_size)\<close> raises on a zero step and is empty on a negative one.
\<close>

definition insert_organizations ::
  "database \<Rightarrow> org_dict list \<Rightarrow> int \<Rightarrow> database \<times> (error + nat)" where
  "insert_organizations db organizations batch_size =
     (if batch_size = 0 then (db, Inl ValueError)
      else if batch_size < 0 then (db, Inr 0)
      else insert_batches db organizations (nat batch_size) 0)"

text \<open>A sequence of bulk-upsert calls, each with its records and batch size.\<close>

fun upsert_calls :: "database \<Rightarrow> (org_dict list \<times> int) list \<Rightarrow> database" where
  "upsert_calls db [] = db"
| "upsert_calls db ((organizations, batch_size) # calls) =
     upsert_calls (fst (insert_organizations db organizations batch_size)) calls"

section \<open>The query engine\<close>

text \<open>
  SQLite's \<open>LIKE\<close>: \<open>%\<close> matches any run of characters, \<open>_\<close> any one character,
  letters compare without regard to case. The first argument is the pattern.
\<close>

fun sql_like :: "string \<Rightarrow> string \<Rightarrow> bool" where
  "sql_like [] [] = True"
| "sql_like [] (c # cs) = False"
| "sql_like (p # ps) [] = (p = CHR ''%'' \<and> sql_like ps [])"
| "sql_like (p # ps) (c # cs) =
     (if p = CHR ''%'' then sql_like ps (c # cs) \<or> sql_like (p # ps) cs
      else (p = CHR ''_'' \<or> upper_char p = upper_char c) \<and> sql_like ps cs)"

text \<open>Truth value of an \<open>Optional[str]\<close>: \<open>None\<close> and the empty string are false.\<close>

fun truthy :: "string option \<Rightarrow> bool" where
  "truthy None = False"
| "truthy (Some s) = (s \<noteq> [])"

text \<open>
  The conditions appended to \<open>filter_conditions\<close>, each as a predicate on a
  row; a comparison with a \<open>NULL\<close> column is not true.
\<close>

definition state_condition :: "string \<Rightarrow> row \<Rightarrow> bool" where
  "state_condition s r = (row_state r = Some s)"

definition city_condition :: "string \<Rightarrow> row \<Rightarrow> bool" where
  "city_condition s r =
     (case row_city r of None \<Rightarrow> False | Some c \<Rightarrow> sql_like (''%'' @ s @ ''%'') c)"

definition ntee_condition :: "string \<Rightarrow> row \<Rightarrow> bool" where
  "ntee_condition s r =
     (case row_ntee_code r of None \<Rightarrow> False | Some c \<Rightarrow> sql_like (s @ ''%'') c)"

definition at_least :: "int \<Rightarrow> int option \<Rightarrow> bool" where
  "at_least bound v = (case v of None \<Rightarrow> False | Some x \<Rightarrow> bound \<le> x)"

definition at_most :: "int \<Rightarrow> int option \<Rightarrow> bool" where
  "at_most bound v = (case v of None \<Rightarrow> False | Some x \<Rightarrow> x \<le> bound)"

definition filter_conditions ::
  "string option \<Rightarrow> string option \<Rightarrow> string option \<Rightarrow>
   int option \<Rightarrow> int option \<Rightarrow> int option \<Rightarrow> int option \<Rightarrow> (row \<Rightarrow> bool) list" where
  "filter_conditions state city ntee_code min_revenue max_revenue min_assets max_assets =
     (case state of Some s \<Rightarrow> if s \<noteq> [] then [state_condition s] else [] | None \<Rightarrow> [])
     @ (case city of Some s \<Rightarrow> if s \<noteq> [] then [city_condition s] else [] | None \<Rightarrow> [])
     @ (case ntee_code of Some s \<Rightarrow> if s \<noteq> [] then [ntee_condition s] else [] | None \<Rightarrow> [])
     @ (case min_revenue of Some b \<Rightarrow> [\<lambda>r. at_least b (row_revenue_amount r)] | None \<Rightarrow> [])
     @ (case max_revenue of Some b \<Rightarrow> [\<lambda>r. at_most b (row_revenue_amount r)] | None \<Rightarrow> [])
     @ (case min_assets of Some b \<Rightarrow> [\<lambda>r. at_least b (row_asset_amount r)] | None \<Rightarrow> [])
     @ (case max_assets of Some b \<Rightarrow> [\<lambda>r. at_most b (row_asset_amount r)] | None \<Rightarrow> [])"

text \<open>The rows of a list that satisfy every condition (\<open>AND\<close>).\<close>

definition satisfying :: "(row \<Rightarrow> bool) list \<Rightarrow> row list \<Rightarrow> row list" where
  "satisfying conditions rs = filter (\<lambda>r. list_all (\<lambda>p. p r) conditions) rs"

text \<open>
  \<open>ORDER BY revenue_amount DESC\<close>: \<open>NULL\<close> sorts below every integer, so it
  comes last. The order among equal amounts is SQLite's choice; the model
  fixes one.
\<close>

definition order_by_revenue_desc :: "row list \<Rightarrow> row list" where
  "order_by_revenue_desc rs = rev (sort_key row_revenue_amount rs)"

text \<open>\<open>LIMIT ? OFFSET ?\<close>: a negative limit is no limit, a negative offset is 0.\<close>

definition limit_offset :: "int \<Rightarrow> int \<Rightarrow> 'a list \<Rightarrow> 'a list" where
  "limit_offset limit offset xs =
     (let ys = drop (nat offset) xs in if limit < 0 then ys else take (nat limit) ys)"

text \<open>
  \<open>DatabaseManager.search_organizations\<close>. The full-text index is a parameter:
  \<open>fts q\<close> is \<open>None\<close> when FTS5 rejects the query expression \<open>q\<close>, and
  otherwise the set of rows whose index entry matches.

  The count statement is executed first, then the page statement, and each
  execution prepares the statement, binds the parameters and runs it:

    \<^item> with a query the statement joins \<open>organizations\<close> with
      \<open>organizations_fts\<close>, and both tables have columns \<open>state\<close> and \<open>city\<close>:
      the unqualified names in the state and city conditions are ambiguous
      and SQLite refuses to prepare the statement;
    \<^item> binding a range bound outside the 64-bit range raises;
    \<^item> running the count statement raises when FTS5 rejects the query
      expression;
    \<^item> binding a limit or an offset outside the 64-bit range raises.
\<close>

definition search_organizations ::
  "(string \<Rightarrow> (row \<Rightarrow> bool) option) \<Rightarrow> database \<Rightarrow>
   string option \<Rightarrow> string option \<Rightarrow> string option \<Rightarrow> string option \<Rightarrow>
   int option \<Rightarrow> int option \<Rightarrow> int option \<Rightarrow> int option \<Rightarrow> int \<Rightarrow> int \<Rightarrow>
   error + (row list \<times> nat)" where
  "search_organizations fts db query state city ntee_code
       min_revenue max_revenue min_assets max_assets limit offset =
     (let conditions = filter_conditions state city ntee_code
                         min_revenue max_revenue min_assets max_assets;
          run = (\<lambda>candidates.
                   let matching = satisfying conditions candidates;
                       total_count = length matching
                   in if \<not> (sqlite_integer limit \<and> sqlite_integer offset)
                      then Inl OverflowError
                      else Inr (limit_offset limit offset (order_by_revenue_desc matching),
                                total_count))
      in if truthy query \<and> (truthy state \<or> truthy city) then Inl OperationalError
         else if \<not> (bindable min_revenue \<and> bindable max_revenue \<and>
                     bindable min_assets \<and> bindable max_assets)
         then Inl OverflowError
         else
           (case query of
              None \<Rightarrow> run (db_rows db)
            | Some q \<Rightarrow>
                if q = [] then run (db_rows db)
                else (case fts q of
                        None \<Rightarrow> Inl OperationalError
                      | Some hit \<Rightarrow> run (filter hit (db_rows db)))))"

section \<open>The statistics aggregator\<close>

text \<open>The \<open>CASE\<close> expression of the revenue distribution; no \<open>WHEN\<close> is true of \<open>NULL\<close>.\<close>

definition revenue_range :: "int option \<Rightarrow> string" where
  "revenue_range v =
     (case v of
        None \<Rightarrow> ''>$5M''
      | Some x \<Rightarrow>
          if x = 0 then ''Zero''
          else if x < 50000 then ''<$50K''
          else if x < 250000 then ''$50K-$250K''
          else if x < 1000000 then ''$250K-$1M''
          else if x < 5000000 then ''$1M-$5M''
          else ''>$5M'')"

definition range_labels :: "string list" where
  "range_labels = [''Zero'', ''<$50K'', ''$50K-$250K'', ''$250K-$1M'', ''$1M-$5M'', ''>$5M'']"

text \<open>
  \<open>GROUP BY range\<close> with \<open>COUNT(*)\<close>: one result row per label that occurs,
  with the number of organizations bearing it. The result is listed in the
  order of the labels; for amounts that are not negative and not \<open>NULL\<close> this
  is the order \<open>ORDER BY revenue_amount\<close> gives.
\<close>

definition revenue_distribution :: "database \<Rightarrow> (string \<times> nat) list" where
  "revenue_distribution db =
     filter (\<lambda>(label, n). 0 < n)
       (map (\<lambda>label.
               (label, length (filter (\<lambda>r. revenue_range (row_revenue_amount r) = label)
                                 (db_rows db))))
          range_labels)"

section \<open>The search endpoint\<close>

text \<open>
  \<open>GET /api/search\<close> in \<open>main.py\<close>. The parameters \<open>limit\<close> (\<open>ge=1, le=500\<close>)
  and \<open>offset\<close> (\<open>ge=0\<close>) are validated before the handler runs; an exception
  of the storage layer becomes the answer 500. The second component lists
  the calls made to the storage layer.
\<close>

datatype response =
    ValidationFailure
  | SearchFailed
  | Success "row list" nat int int

datatype storage_call =
  SearchCall "string option" "string option" "string option" "string option"
             "int option" "int option" "int option" "int option" int int

definition api_search ::
  "(string \<Rightarrow> (row \<Rightarrow> bool) option) \<Rightarrow> database \<Rightarrow>
   string option \<Rightarrow> string option \<Rightarrow> string option \<Rightarrow> string option \<Rightarrow>
   int option \<Rightarrow> int option \<Rightarrow> int option \<Rightarrow> int option \<Rightarrow> int \<Rightarrow> int \<Rightarrow>
   response \<times> storage_call list" where
  "api_search fts db q state city ntee min_revenue max_revenue min_assets max_assets
       limit offset =
     (if limit < 1 \<or> 500 < limit \<or> offset < 0 then (ValidationFailure, [])
      else
        (case search_organizations fts db q state city ntee
                min_revenue max_revenue min_assets max_assets limit offset of
           Inl e \<Rightarrow> SearchFailed
         | Inr (results, total_count) \<Rightarrow> Success results total_count limit offset,
         [SearchCall q state city ntee min_revenue max_revenue min_assets max_assets
            limit offset]))"

section \<open>Example data\<close>

text \<open>
  The organizations of the documented scenarios: a record with an EIN, a name
  and a revenue amount, and the corpus of five organizations with revenues
  0, 40000, 300000, 2000000 and 8000000.
\<close>

definition example_org :: "string \<Rightarrow> string \<Rightarrow> int \<Rightarrow> org_dict" where
  "example_org e n revenue =
     \<lparr> org_ein = Value (Some e),
       org_name = Value (Some n),
       org_legal_name = Missing,
       org_street = Missing,
       org_city = Missing,
       org_state = Missing,
       org_zip = Missing,
       org_subsection_code = Missing,
       org_ntee_code = Missing,
       org_foundation_code = Missing,
       org_asset_amount = Missing,
       org_income_amount = Missing,
       org_revenue_amount = Value (Some revenue),
       org_tax_exempt_status = Missing,
       org_ruling_date = Missing,
       org_tax_period = Missing,
       org_group_exemption = Missing,
       org_deductibility = Missing,
       org_activity_codes = Missing,
       org_organization_code = Missing,
       org_data_source = Missing,
       org_ntee_description = Missing \<rparr>"

definition example_corpus :: database where
  "example_corpus =
     fst (insert_organizations init_database
            [example_org ''000000001'' ''Org One'' 0,
             example_org ''000000002'' ''Org Two'' 40000,
             example_org ''000000003'' ''Org Three'' 300000,
             example_org ''000000004'' ''Org Four'' 2000000,
             example_org ''000000005'' ''Org Five'' 8000000]
            1000)"

text \<open>A full-text index that rejects every query expression.\<close>

definition no_fts :: "string \<Rightarrow> (row \<Rightarrow> bool) option" where
  "no_fts q = None"

section \<open>Verification: the amount-code normalizer\<close>

lemma is_space_lower_char: "is_space (lower_char c) = is_space c"
  by (auto simp: is_space_def lower_char_def Let_def)
lemma is_space_upper_char: "is_space (upper_char c) = is_space c"
  by (auto simp: is_space_def upper_char_def Let_def)
lemma upper_lower_char: "upper_char (lower_char c) = upper_char c"
  by (auto simp: upper_char_def lower_char_def Let_def)
lemma upper_upper_char: "upper_char (upper_char c) = upper_char c"
  by (auto simp: upper_char_def Let_def)

lemma strip_map:
  assumes "\<And>c. is_space (f c) = is_space c"
  shows "strip (map f s) = map f (strip s)"
proof -
  have eq: "is_space \<circ> f = is_space"
    using assms by (simp add: fun_eq_iff)
  show ?thesis
    by (simp add: strip_def dropWhile_map rev_map eq)
qed

lemma strip_surrounding:
  assumes a: "\<forall>c\<in>set a. is_space c" and b: "\<forall>c\<in>set b. is_space c"
  shows "strip (a @ s @ b) = strip s"
proof -
  have front: "dropWhile is_space (a @ s @ b) = dropWhile is_space (s @ b)"
    using a by simp
  have bnil: "dropWhile is_space b = []"
    using b by (simp add: dropWhile_eq_Nil_conv)
  show ?thesis
  proof (cases "\<forall>c\<in>set s. is_space c")
    case True
    then have e1: "dropWhile is_space s = []"
      by (simp add: dropWhile_eq_Nil_conv)
    have e2: "dropWhile is_space (s @ b) = []"
      using True b by (auto simp: dropWhile_eq_Nil_conv)
    show ?thesis
      unfolding strip_def front e1 e2 by simp
  next
    case False
    then have e1: "dropWhile is_space (s @ b) = dropWhile is_space s @ b"
      by auto
    have e2: "dropWhile is_space (rev b @ rev (dropWhile is_space s))
        = dropWhile is_space (rev (dropWhile is_space s))"
      by (rule dropWhile_append2) (use b in auto)
    show ?thesis
      unfolding strip_def front e1 rev_append e2 by simp
  qed
qed

lemma upper_strip_lower: "upper (strip (lower s)) = upper (strip s)"
  by (simp add: upper_def lower_def strip_map is_space_lower_char upper_lower_char)

lemma upper_strip_upper: "upper (strip (upper s)) = upper (strip s)"
  by (simp add: upper_def strip_map is_space_upper_char upper_upper_char)

lemma amount_table_rows:
  "parse_amount_code (PyStr '''') = 0"
  "parse_amount_code (PyStr ''0'') = 0"
  "parse_amount_code (PyStr ''1'') = 5000"
  "parse_amount_code (PyStr ''2'') = 25000"
  "parse_amount_code (PyStr ''3'') = 62500"
  "parse_amount_code (PyStr ''4'') = 175000"
  "parse_amount_code (PyStr ''5'') = 375000"
  "parse_amount_code (PyStr ''6'') = 750000"
  "parse_amount_code (PyStr ''7'') = 2500000"
  "parse_amount_code (PyStr ''8'') = 7500000"
  "parse_amount_code (PyStr ''9'') = 25000000"
  "parse_amount_code (PyStr ''A'') = 75000000"
  "parse_amount_code (PyStr ''B'') = 175000000"
  "parse_amount_code (PyStr ''C'') = 375000000"
  "parse_amount_code (PyStr ''D'') = 750000000"
  by code_simp+

lemma amount_unknown:
  "upper (strip (str_of code)) \<notin> set (map fst AMOUNT_CODES) \<Longrightarrow> parse_amount_code code = 0"
proof -
  assume "upper (strip (str_of code)) \<notin> set (map fst AMOUNT_CODES)"
  then have "map_of AMOUNT_CODES (upper (strip (str_of code))) = None"
    by (simp add: map_of_eq_None_iff)
  then show ?thesis
    by (simp add: parse_amount_code_def dict_get_def)
qed

text \<open>
  Claim C3. The amount-code normalizer returns the documented bucket for every
  code of its table, returns 0 for every input whose normalised form (trimmed,
  upper-cased) is not a key of the table, \<open>None\<close> included, and never raises: it
  is a total function. Lower-casing or upper-casing the input and surrounding
  it with whitespace do not change the result; \<open>' d '\<close> maps as \<open>'D'\<close>.
\<close>

theorem amount_code_normalizer:
  "parse_amount_code (PyStr '''') = 0 \<and>
   parse_amount_code (PyStr ''0'') = 0 \<and>
   parse_amount_code (PyStr ''1'') = 5000 \<and>
   parse_amount_code (PyStr ''2'') = 25000 \<and>
   parse_amount_code (PyStr ''3'') = 62500 \<and>
   parse_amount_code (PyStr ''4'') = 175000 \<and>
   parse_amount_code (PyStr ''5'') = 375000 \<and>
   parse_amount_code (PyStr ''6'') = 750000 \<and>
   parse_amount_code (PyStr ''7'') = 2500000 \<and>
   parse_amount_code (PyStr ''8'') = 7500000 \<and>
   parse_amount_code (PyStr ''9'') = 25000000 \<and>
   parse_amount_code (PyStr ''A'') = 75000000 \<and>
   parse_amount_code (PyStr ''B'') = 175000000 \<and>
   parse_amount_code (PyStr ''C'') = 375000000 \<and>
   parse_amount_code (PyStr ''D'') = 750000000 \<and>
   (\<forall>code. upper (strip (str_of code)) \<notin> set (map fst AMOUNT_CODES)
      \<longrightarrow> parse_amount_code code = 0) \<and>
   parse_amount_code PyNone = 0 \<and>
   (\<forall>s. parse_amount_code (PyStr (lower s)) = parse_amount_code (PyStr s)) \<and>
   (\<forall>s. parse_amount_code (PyStr (upper s)) = parse_amount_code (PyStr s)) \<and>
   (\<forall>a b s. (\<forall>c\<in>set a. is_space c) \<and> (\<forall>c\<in>set b. is_space c)
      \<longrightarrow> parse_amount_code (PyStr (a @ s @ b)) = parse_amount_code (PyStr s)) \<and>
   parse_amount_code (PyStr '' d '') = 750000000"
proof -
  have none: "parse_amount_code PyNone = 0" by code_simp
  have ex: "parse_amount_code (PyStr '' d '') = 750000000" by code_simp
  have low: "\<forall>s. parse_amount_code (PyStr (lower s)) = parse_amount_code (PyStr s)"
    by (simp add: parse_amount_code_def upper_strip_lower)
  have up: "\<forall>s. parse_amount_code (PyStr (upper s)) = parse_amount_code (PyStr s)"
    by (simp add: parse_amount_code_def upper_strip_upper)
  have ws: "\<forall>a b s. (\<forall>c\<in>set a. is_space c) \<and> (\<forall>c\<in>set b. is_space c)
      \<longrightarrow> parse_amount_code (PyStr (a @ s @ b)) = parse_amount_code (PyStr s)"
    by (simp add: parse_amount_code_def strip_surrounding)
  have unk: "\<forall>code. upper (strip (str_of code)) \<notin> set (map fst AMOUNT_CODES)
      \<longrightarrow> parse_amount_code code = 0"
    using amount_unknown by blast
  show ?thesis
    using amount_table_rows none ex low up ws unk by blast
qed

text \<open>
  Claim C3 at concrete inputs: an unknown code, a code between a tab, a space
  and a line feed, and a lower-case code.
\<close>

theorem amount_code_normalizer_witness:
  "parse_amount_code (PyStr ''Q7'') = 0 \<and>
   parse_amount_code (PyStr ([CHR 0x09, CHR '' ''] @ ''c'' @ [CHR 0x0A])) = parse_amount_code (PyStr ''c'') \<and>
   parse_amount_code (PyStr ''c'') = 375000000"
proof -
  have h1: "upper (strip (str_of (PyStr ''Q7''))) \<notin> set (map fst AMOUNT_CODES)"
    by code_simp
  have h2: "(\<forall>c\<in>set [CHR 0x09, CHR '' '']. is_space c) \<and> (\<forall>c\<in>set [CHR 0x0A]. is_space c)"
    by code_simp
  have h3: "lower ''C'' = ''c''" by code_simp
  from amount_code_normalizer have
    a: "\<forall>code. upper (strip (str_of code)) \<notin> set (map fst AMOUNT_CODES) \<longrightarrow> parse_amount_code code = 0"
    and b: "\<forall>a b s. (\<forall>c\<in>set a. is_space c) \<and> (\<forall>c\<in>set b. is_space c)
      \<longrightarrow> parse_amount_code (PyStr (a @ s @ b)) = parse_amount_code (PyStr s)"
    and c: "\<forall>s. parse_amount_code (PyStr (lower s)) = parse_amount_code (PyStr s)"
    and d: "parse_amount_code (PyStr ''C'') = 375000000"
    by blast+
  have "parse_amount_code (PyStr ''Q7'') = 0" using a h1 by blast
  moreover have "parse_amount_code (PyStr ([CHR 0x09, CHR '' ''] @ ''c'' @ [CHR 0x0A])) = parse_amount_code (PyStr ''c'')"
    using b h2 by blast
  moreover have "parse_amount_code (PyStr ''c'') = 375000000"
    using c [rule_format, of "''C''"] d h3 by simp
  ultimately show ?thesis by blast
qed

section \<open>Verification: the record parser and the pipeline\<close>

lemma and_then_Inr_iff: "and_then m f = Inr y \<longleftrightarrow> (\<exists>x. m = Inr x \<and> f x = Inr y)"
  by (cases m) auto

lemma field_blank:
  assumes "row ''EIN'' = None \<or> (\<exists>s. row ''EIN'' = Some (PyStr s) \<and> strip s = [])"
  shows "field row ''EIN'' = Inr []"
  using assms by (auto simp: field_def dict_get_def strip_def)

lemma parse_eo_row_blank:
  assumes "row ''EIN'' = None \<or> (\<exists>s. row ''EIN'' = Some (PyStr s) \<and> strip s = [])"
  shows "parse_eo_row row = Inr None"
  using field_blank [of row, OF assms] by (simp add: parse_eo_row_def)

lemma parse_eo_row_shape:
  assumes "parse_eo_row row = Inr (Some org)"
  shows "\<exists>base e code. org = add_ntee_description base \<and>
           org_ein base = Value (Some e) \<and> e \<noteq> [] \<and> field row ''EIN'' = Inr e \<and>
           org_ntee_code base = Value (Some code) \<and> org_ntee_description base = Missing"
  using assms
  by (auto simp: parse_eo_row_def and_then_Inr_iff Let_def split: if_splits)

lemma add_ntee_description_code: "org_ntee_code (add_ntee_description base) = org_ntee_code base"
  by (simp add: add_ntee_description_def split: option.splits list.splits)

lemma add_ntee_description_ein: "org_ein (add_ntee_description base) = org_ein base"
  by (simp add: add_ntee_description_def split: option.splits list.splits)

lemma add_ntee_description_value:
  assumes "org_ntee_code base = Value (Some code)" and "org_ntee_description base = Missing"
  shows "org_ntee_description (add_ntee_description base) =
           (case code of
              [] \<Rightarrow> Missing
            | c # cs \<Rightarrow> Value (Some (dict_get (map_of NTEE_CATEGORIES) [c] ''Unknown'')))"
  using assms by (simp add: add_ntee_description_def split: list.splits)

lemma parse_eo_row_ntee:
  assumes "parse_eo_row row = Inr (Some org)"
  shows "\<exists>code. org_ntee_code org = Value (Some code) \<and>
           org_ntee_description org =
             (case code of
                [] \<Rightarrow> Missing
              | c # cs \<Rightarrow> Value (Some (dict_get (map_of NTEE_CATEGORIES) [c] ''Unknown'')))"
proof -
  from parse_eo_row_shape [OF assms] obtain base code where
    org: "org = add_ntee_description base" and
    code: "org_ntee_code base = Value (Some code)" and
    desc: "org_ntee_description base = Missing"
    by blast
  show ?thesis
    using add_ntee_description_value [OF code desc]
    by (simp add: org add_ntee_description_code code)
qed

lemma parse_eo_row_ein:
  assumes "parse_eo_row row = Inr (Some org)"
  shows "\<exists>e. org_ein org = Value (Some e) \<and> e \<noteq> [] \<and> field row ''EIN'' = Inr e"
  using parse_eo_row_shape [OF assms] by (auto simp: add_ntee_description_ein)

lemma parse_eo_bmf_skip:
  assumes "parse_eo_row row = Inr None \<or> (\<exists>e. parse_eo_row row = Inl e)"
  shows "parse_eo_bmf (before @ Item row # after) = parse_eo_bmf (before @ after)"
proof (induction before rule: parse_eo_bmf.induct)
  case 1
  then show ?case using assms by auto
next
  case (2 rest)
  then show ?case by simp
next
  case (3 r rest)
  then show ?case by (simp split: sum.splits option.splits)
qed

lemma errors_zero: "errors (fst (process_all_data env)) = 0"
  by (simp add: process_all_data_def Let_def)

lemma processed_is_batch:
  "organizations_processed (fst (process_all_data env)) = length (fst (snd (process_all_data env)))"
  by (simp add: process_all_data_def Let_def)

lemma ntee_unknown: "[c] \<notin> set (map fst NTEE_CATEGORIES) \<Longrightarrow> dict_get (map_of NTEE_CATEGORIES) [c] ''Unknown'' = ''Unknown''"
proof -
  assume "[c] \<notin> set (map fst NTEE_CATEGORIES)"
  then have "map_of NTEE_CATEGORIES [c] = None"
    by (simp add: map_of_eq_None_iff)
  then show ?thesis by (simp add: dict_get_def)
qed

lemma ntee_B: "dict_get (map_of NTEE_CATEGORIES) ''B'' ''Unknown'' = ''Education''"
  by (simp add: dict_get_def NTEE_CATEGORIES_def)

lemma parse_eo_bmf_eins:
  "\<forall>org\<in>set (parse_eo_bmf part). \<exists>e. org_ein org = Value (Some e) \<and> e \<noteq> []"
proof (induction part rule: parse_eo_bmf.induct)
  case 1
  then show ?case by simp
next
  case (2 rest)
  then show ?case by simp
next
  case (3 row rest)
  then show ?case
    by (auto split: sum.splits option.splits dest: parse_eo_row_ein)
qed

lemma download_empty_iff:
  "download_eo_bmf regs = [] \<longleftrightarrow> (\<forall>d\<in>set regs. d = Failed)"
  by (induction regs rule: download_eo_bmf.induct) auto

lemma ntee_table_rows:
  "\<forall>(k, d)\<in>set NTEE_CATEGORIES. dict_get (map_of NTEE_CATEGORIES) k ''Unknown'' = d"
proof -
  have "distinct (map fst NTEE_CATEGORIES)"
    by (simp add: NTEE_CATEGORIES_def)
  then show ?thesis
    by (auto simp: dict_get_def)
qed

text \<open>
  Claim C7. A record the parser returns carries its (trimmed) classification
  code; when the code is not empty, the key \<open>ntee_description\<close> holds the entry
  of the category table for the first character of the code, and \<open>Unknown\<close>
  when the table has no such key; when the code is empty the key is absent.
  The table lookup returns each entry of the table, \<open>Education\<close> for \<open>B\<close>.
\<close>

theorem ntee_category_description:
  "(parse_eo_row row = Inr (Some org) \<longrightarrow>
      (\<exists>code. org_ntee_code org = Value (Some code) \<and>
         org_ntee_description org =
           (case code of
              [] \<Rightarrow> Missing
            | c # cs \<Rightarrow> Value (Some (dict_get (map_of NTEE_CATEGORIES) [c] ''Unknown''))))) \<and>
   (\<forall>(k, d)\<in>set NTEE_CATEGORIES. dict_get (map_of NTEE_CATEGORIES) k ''Unknown'' = d) \<and>
   dict_get (map_of NTEE_CATEGORIES) ''B'' ''Unknown'' = ''Education'' \<and>
   (\<forall>c. [c] \<notin> set (map fst NTEE_CATEGORIES) \<longrightarrow>
      dict_get (map_of NTEE_CATEGORIES) [c] ''Unknown'' = ''Unknown'')"
  using parse_eo_row_ntee ntee_table_rows ntee_B ntee_unknown by blast

text \<open>
  Claim C7 at concrete rows: the code \<open>B300\<close> gives \<open>Education\<close>, the code
  \<open>9Z\<close> gives \<open>Unknown\<close>, and a row without a code gets no description.
\<close>

theorem ntee_category_description_witness:
  "org_ntee_description (the (projr (parse_eo_row
      [''EIN'' \<mapsto> PyStr ''123456789'', ''NTEE_CD'' \<mapsto> PyStr ''B300''])))
     = Value (Some ''Education'') \<and>
   org_ntee_description (the (projr (parse_eo_row
      [''EIN'' \<mapsto> PyStr ''123456789'', ''NTEE_CD'' \<mapsto> PyStr ''9Z''])))
     = Value (Some ''Unknown'') \<and>
   org_ntee_description (the (projr (parse_eo_row
      [''EIN'' \<mapsto> PyStr ''123456789''])))
     = Missing"
proof -
  let ?r1 = "[''EIN'' \<mapsto> PyStr ''123456789'', ''NTEE_CD'' \<mapsto> PyStr ''B300'']"
  let ?r2 = "[''EIN'' \<mapsto> PyStr ''123456789'', ''NTEE_CD'' \<mapsto> PyStr ''9Z'']"
  let ?r3 = "[''EIN'' \<mapsto> PyStr ''123456789'']"
  note ev = parse_eo_row_def add_ntee_description_def field_def dict_get_def strip_def
    is_space_def Let_def
  have h1: "parse_eo_row ?r1 = Inr (Some (the (projr (parse_eo_row ?r1))))"
    by (simp add: ev)
  have c1: "org_ntee_code (the (projr (parse_eo_row ?r1))) = Value (Some ''B300'')"
    by (simp add: ev)
  have h2: "parse_eo_row ?r2 = Inr (Some (the (projr (parse_eo_row ?r2))))"
    by (simp add: ev)
  have c2: "org_ntee_code (the (projr (parse_eo_row ?r2))) = Value (Some ''9Z'')"
    by (simp add: ev)
  have n2: "[CHR ''9''] \<notin> set (map fst NTEE_CATEGORIES)"
    by (simp add: NTEE_CATEGORIES_def)
  have h3: "parse_eo_row ?r3 = Inr (Some (the (projr (parse_eo_row ?r3))))"
    by (simp add: ev)
  have c3: "org_ntee_code (the (projr (parse_eo_row ?r3))) = Value (Some [])"
    by (simp add: ev)
  have t1: "org_ntee_description (the (projr (parse_eo_row ?r1))) = Value (Some ''Education'')"
    using ntee_category_description [of ?r1 "the (projr (parse_eo_row ?r1))"] h1 c1
    by auto
  have t2: "org_ntee_description (the (projr (parse_eo_row ?r2))) = Value (Some ''Unknown'')"
    using ntee_category_description [of ?r2 "the (projr (parse_eo_row ?r2))"] h2 c2 n2
    by auto
  have t3: "org_ntee_description (the (projr (parse_eo_row ?r3))) = Missing"
    using ntee_category_description [of ?r3 "the (projr (parse_eo_row ?r3))"] h3 c3
    by auto
  show ?thesis
    using t1 t2 t3 by blast
qed

text \<open>
  Claim C4 as stated fails: the code keeps no count of skipped rows. In a run
  whose only partition holds one row with a blank EIN, the row is skipped and
  every count of the summary that could reflect it is 0.
\<close>

theorem skipped_row_count_counterexample:
  "parse_eo_row [''EIN'' \<mapsto> PyStr ''  '', ''NAME'' \<mapsto> PyStr ''Helping Hands''] = Inr None \<and>
   eo_bmf_files (fst (process_all_data
      \<lparr> env_regions = [Downloaded [Item [''EIN'' \<mapsto> PyStr ''  '', ''NAME'' \<mapsto> PyStr ''Helping Hands'']]],
        env_pub78 = False, env_started = 0, env_completed = 1 \<rparr>)) = 1 \<and>
   errors (fst (process_all_data
      \<lparr> env_regions = [Downloaded [Item [''EIN'' \<mapsto> PyStr ''  '', ''NAME'' \<mapsto> PyStr ''Helping Hands'']]],
        env_pub78 = False, env_started = 0, env_completed = 1 \<rparr>)) = 0 \<and>
   organizations_processed (fst (process_all_data
      \<lparr> env_regions = [Downloaded [Item [''EIN'' \<mapsto> PyStr ''  '', ''NAME'' \<mapsto> PyStr ''Helping Hands'']]],
        env_pub78 = False, env_started = 0, env_completed = 1 \<rparr>)) = 0"
proof -
  have r: "parse_eo_row [''EIN'' \<mapsto> PyStr ''  '', ''NAME'' \<mapsto> PyStr ''Helping Hands''] = Inr None"
    by (simp add: parse_eo_row_def field_def dict_get_def strip_def is_space_def)
  show ?thesis
    by (simp add: r process_all_data_def Let_def)
qed

text \<open>
  Claim C4, amended. For every raw row whose EIN key is absent or whose EIN
  value is blank (empty after trimming), the record parser returns absent
  rather than raising, and the row contributes nothing to the parsed batch of
  its partition, whose records all carry a non-empty EIN. No error or skip
  count reflects the row: the partition parser returns the batch alone, the
  summary's \<open>errors\<close> is 0 in every run and \<open>organizations_processed\<close> is the
  length of the returned batch.
\<close>

theorem blank_ein_row_dropped:
  "(row ''EIN'' = None \<or> (\<exists>s. row ''EIN'' = Some (PyStr s) \<and> strip s = []) \<longrightarrow>
      parse_eo_row row = Inr None \<and>
      parse_eo_bmf (before @ Item row # after) = parse_eo_bmf (before @ after)) \<and>
   (\<forall>org\<in>set (parse_eo_bmf part). \<exists>e. org_ein org = Value (Some e) \<and> e \<noteq> []) \<and>
   errors (fst (process_all_data env)) = 0 \<and>
   organizations_processed (fst (process_all_data env))
     = length (fst (snd (process_all_data env)))"
proof -
  have blank: "row ''EIN'' = None \<or> (\<exists>s. row ''EIN'' = Some (PyStr s) \<and> strip s = []) \<longrightarrow>
      parse_eo_row row = Inr None \<and>
      parse_eo_bmf (before @ Item row # after) = parse_eo_bmf (before @ after)"
  proof
    assume "row ''EIN'' = None \<or> (\<exists>s. row ''EIN'' = Some (PyStr s) \<and> strip s = [])"
    then have absent: "parse_eo_row row = Inr None"
      by (rule parse_eo_row_blank)
    then show "parse_eo_row row = Inr None \<and>
      parse_eo_bmf (before @ Item row # after) = parse_eo_bmf (before @ after)"
      using parse_eo_bmf_skip [of row before after] by simp
  qed
  have batch: "\<forall>org\<in>set (parse_eo_bmf part). \<exists>e. org_ein org = Value (Some e) \<and> e \<noteq> []"
    by (rule parse_eo_bmf_eins)
  show ?thesis
    using blank batch errors_zero [of env] processed_is_batch [of env]
    by (intro conjI)
qed

text \<open>
  Claim C4 (amended) at a concrete partition: a good row followed by a row
  whose EIN is two spaces, and the same with a row that has no EIN key.
\<close>

theorem blank_ein_row_dropped_witness:
  "parse_eo_row [''EIN'' \<mapsto> PyStr ''  '', ''NAME'' \<mapsto> PyStr ''Nameless''] = Inr None \<and>
   parse_eo_bmf ([Item [''EIN'' \<mapsto> PyStr ''123456789'']]
                 @ Item [''EIN'' \<mapsto> PyStr ''  '', ''NAME'' \<mapsto> PyStr ''Nameless''] # [])
     = parse_eo_bmf ([Item [''EIN'' \<mapsto> PyStr ''123456789'']] @ []) \<and>
   parse_eo_row [''NAME'' \<mapsto> PyStr ''Nameless''] = Inr None"
proof -
  let ?row = "[''EIN'' \<mapsto> PyStr ''  '', ''NAME'' \<mapsto> PyStr ''Nameless'']"
  let ?row' = "[''NAME'' \<mapsto> PyStr ''Nameless'']"
  have h: "?row ''EIN'' = None \<or> (\<exists>s. ?row ''EIN'' = Some (PyStr s) \<and> strip s = [])"
    by (simp add: strip_def is_space_def)
  have h': "?row' ''EIN'' = None \<or> (\<exists>s. ?row' ''EIN'' = Some (PyStr s) \<and> strip s = [])"
    by simp
  have a: "parse_eo_row ?row = Inr None \<and>
           parse_eo_bmf ([Item [''EIN'' \<mapsto> PyStr ''123456789'']] @ Item ?row # [])
             = parse_eo_bmf ([Item [''EIN'' \<mapsto> PyStr ''123456789'']] @ [])"
    using blank_ein_row_dropped [where row = ?row
        and before = "[Item [''EIN'' \<mapsto> PyStr ''123456789'']]" and after = "[]"] h
    by blast
  have b: "parse_eo_row ?row' = Inr None"
    using blank_ein_row_dropped [where row = ?row'] h' by blast
  show ?thesis
    using a b by blast
qed

text \<open>
  Claim C10. The download step yields the empty list exactly when every
  region's download fails. In that case the run returns normally: the summary
  has \<open>eo_bmf_files = 0\<close> and \<open>organizations_processed = 0\<close>, the batch is the
  empty list, and nothing is written to the processed directory.
\<close>

theorem no_partition_retrieved:
  "(download_eo_bmf regions = [] \<longleftrightarrow> (\<forall>d\<in>set regions. d = Failed)) \<and>
   (download_eo_bmf (env_regions env) = [] \<longrightarrow>
      eo_bmf_files (fst (process_all_data env)) = 0 \<and>
      organizations_processed (fst (process_all_data env)) = 0 \<and>
      fst (snd (process_all_data env)) = [] \<and>
      snd (snd (process_all_data env)) = [])"
proof -
  have "download_eo_bmf regions = [] \<longleftrightarrow> (\<forall>d\<in>set regions. d = Failed)"
    by (rule download_empty_iff)
  moreover have "download_eo_bmf (env_regions env) = [] \<longrightarrow>
      eo_bmf_files (fst (process_all_data env)) = 0 \<and>
      organizations_processed (fst (process_all_data env)) = 0 \<and>
      fst (snd (process_all_data env)) = [] \<and>
      snd (snd (process_all_data env)) = []"
    by (simp add: process_all_data_def)
  ultimately show ?thesis
    by (intro conjI)
qed

text \<open>Claim C10 at a run in which the four regions fail.\<close>

theorem no_partition_retrieved_witness:
  "process_all_data
     \<lparr> env_regions = [Failed, Failed, Failed, Failed],
       env_pub78 = True, env_started = 10, env_completed = 25 \<rparr>
   = (\<lparr> started_at = 10, eo_bmf_files = 0, organizations_processed = 0, errors = 0,
        pub78_downloaded = Some True, completed_at = 25, duration = 15 \<rparr>, [], [])"
proof -
  let ?env = "\<lparr> env_regions = [Failed, Failed, Failed, Failed],
                env_pub78 = True, env_started = 10, env_completed = 25 \<rparr>"
  have h: "\<forall>d\<in>set (env_regions ?env). d = Failed"
    by simp
  have empty: "download_eo_bmf (env_regions ?env) = []"
    using no_partition_retrieved [where regions = "env_regions ?env"] h by blast
  have "fst (snd (process_all_data ?env)) = [] \<and> snd (snd (process_all_data ?env)) = []
        \<and> eo_bmf_files (fst (process_all_data ?env)) = 0"
    using no_partition_retrieved [where env = ?env] empty by blast
  then show ?thesis
    by (simp add: process_all_data_def)
qed

section \<open>Verification: the bulk upsert\<close>

lemma insert_or_replace_rows:
  assumes "insert_or_replace db t = Inr db'"
  shows "\<exists>e n. t_ein t = Some e \<and> t_name t = Some n \<and>
           db_rows db' = filter (\<lambda>r. row_ein r \<noteq> e) (db_rows db) @ [new_row (Suc (db_seq db)) e n t]"
  using assms by (auto simp: insert_or_replace_def split: option.splits if_splits)

lemma row_ein_new_row: "row_ein (new_row i e n t) = e"
  by (simp add: new_row_def)

lemma insert_or_replace_distinct:
  assumes "insert_or_replace db t = Inr db'" and "distinct (map row_ein (db_rows db))"
  shows "distinct (map row_ein (db_rows db'))"
proof -
  from insert_or_replace_rows [OF assms(1)] obtain e n where
    rows: "db_rows db' = filter (\<lambda>r. row_ein r \<noteq> e) (db_rows db) @ [new_row (Suc (db_seq db)) e n t]"
    by blast
  have "distinct (map row_ein (filter (\<lambda>r. row_ein r \<noteq> e) (db_rows db)))"
    using assms(2) by (rule distinct_map_filter)
  then show ?thesis
    by (auto simp: rows row_ein_new_row)
qed

lemma executemany_distinct:
  assumes "executemany db ts = Inr db'" and "distinct (map row_ein (db_rows db))"
  shows "distinct (map row_ein (db_rows db'))"
  using assms
proof (induction ts arbitrary: db)
  case Nil
  then show ?case by simp
next
  case (Cons t ts)
  then show ?case
    by (auto split: sum.splits dest: insert_or_replace_distinct)
qed

lemma insert_batches_distinct:
  assumes "distinct (map row_ein (db_rows db))"
  shows "distinct (map row_ein (db_rows (fst (insert_batches db orgs bs tot))))"
  using assms
proof (induction db orgs bs tot rule: insert_batches.induct)
  case (1 db organizations batch_size total_inserted)
  show ?case
  proof (cases "organizations = [] \<or> batch_size = 0")
    case True
    then show ?thesis using "1.prems" by simp
  next
    case False
    show ?thesis
    proof (cases "executemany db (map make_data_tuple (take batch_size organizations))")
      case (Inl e)
      then show ?thesis using False "1.prems" by simp
    next
      case (Inr db')
      have "distinct (map row_ein (db_rows db'))"
        using executemany_distinct [OF Inr "1.prems"] .
      then show ?thesis
        using "1.IH" [OF False refl Inr] False Inr by simp
    qed
  qed
qed

lemma insert_organizations_distinct:
  assumes "distinct (map row_ein (db_rows db))"
  shows "distinct (map row_ein (db_rows (fst (insert_organizations db orgs bs))))"
  using assms by (simp add: insert_organizations_def insert_batches_distinct del: insert_batches.simps)

lemma upsert_calls_distinct:
  assumes "distinct (map row_ein (db_rows db))"
  shows "distinct (map row_ein (db_rows (upsert_calls db calls)))"
  using assms
proof (induction db calls rule: upsert_calls.induct)
  case (1 db)
  then show ?case by simp
next
  case (2 db organizations batch_size calls)
  then show ?case
    by (simp add: insert_organizations_distinct)
qed

lemma executemany_append:
  "executemany db (xs @ ys) =
     (case executemany db xs of Inl e \<Rightarrow> Inl e | Inr db' \<Rightarrow> executemany db' ys)"
  by (induction xs arbitrary: db) (auto split: sum.splits)

lemma insert_batches_success:
  assumes "insert_batches db orgs bs tot = (db', Inr n)" and "0 < bs"
  shows "executemany db (map make_data_tuple orgs) = Inr db' \<and> n = tot + length orgs"
  using assms
proof (induction db orgs bs tot rule: insert_batches.induct)
  case (1 db organizations batch_size total_inserted)
  show ?case
  proof (cases "organizations = []")
    case True
    then show ?thesis using "1.prems" by simp
  next
    case False
    then have go: "\<not> (organizations = [] \<or> batch_size = 0)"
      using "1.prems"(2) by simp
    show ?thesis
    proof (cases "executemany db (map make_data_tuple (take batch_size organizations))")
      case (Inl e)
      then show ?thesis using go "1.prems"(1) by simp
    next
      case (Inr db1)
      have rest: "insert_batches db1 (drop batch_size organizations) batch_size
                    (total_inserted + length (take batch_size organizations)) = (db', Inr n)"
        using go Inr "1.prems"(1) by simp
      have ih: "executemany db1 (map make_data_tuple (drop batch_size organizations)) = Inr db' \<and>
                n = total_inserted + length (take batch_size organizations)
                      + length (drop batch_size organizations)"
        using "1.IH" [OF go refl Inr rest "1.prems"(2)] .
      have split: "map make_data_tuple organizations
                     = map make_data_tuple (take batch_size organizations)
                       @ map make_data_tuple (drop batch_size organizations)"
        by (simp flip: map_append)
      have "executemany db (map make_data_tuple organizations) = Inr db'"
        unfolding split executemany_append using Inr ih by simp
      moreover have "n = total_inserted + length organizations"
        using ih by simp
      ultimately show ?thesis by blast
    qed
  qed
qed

lemma insert_or_replace_other:
  assumes "insert_or_replace db t = Inr db'" and "t_ein t \<noteq> Some e"
  shows "filter (\<lambda>r. row_ein r = e) (db_rows db') = filter (\<lambda>r. row_ein r = e) (db_rows db)"
proof -
  from insert_or_replace_rows [OF assms(1)] obtain e' n where
    e': "t_ein t = Some e'" and
    rows: "db_rows db' = filter (\<lambda>r. row_ein r \<noteq> e') (db_rows db) @ [new_row (Suc (db_seq db)) e' n t]"
    by blast
  have ne: "e' \<noteq> e" using assms(2) e' by simp
  have "filter (\<lambda>r. row_ein r = e) (filter (\<lambda>r. row_ein r \<noteq> e') (db_rows db))
          = filter (\<lambda>r. row_ein r = e) (db_rows db)"
    using ne by (auto intro: filter_cong)
  then show ?thesis
    using ne by (simp add: rows row_ein_new_row)
qed

lemma executemany_other:
  assumes "executemany db ts = Inr db'" and "\<forall>t\<in>set ts. t_ein t \<noteq> Some e"
  shows "filter (\<lambda>r. row_ein r = e) (db_rows db') = filter (\<lambda>r. row_ein r = e) (db_rows db)"
  using assms
proof (induction ts arbitrary: db)
  case Nil
  then show ?case by simp
next
  case (Cons t ts)
  from Cons.prems(1) obtain db1 where
    one: "insert_or_replace db t = Inr db1" and rest: "executemany db1 ts = Inr db'"
    by (auto split: sum.splits)
  have "filter (\<lambda>r. row_ein r = e) (db_rows db1) = filter (\<lambda>r. row_ein r = e) (db_rows db)"
    using insert_or_replace_other [OF one] Cons.prems(2) by simp
  moreover have "filter (\<lambda>r. row_ein r = e) (db_rows db') = filter (\<lambda>r. row_ein r = e) (db_rows db1)"
    using Cons.IH [OF rest] Cons.prems(2) by simp
  ultimately show ?case by simp
qed

lemma insert_or_replace_same:
  assumes "insert_or_replace db t = Inr db'" and "t_ein t = Some e"
  shows "\<exists>n. t_name t = Some n \<and>
           filter (\<lambda>r. row_ein r = e) (db_rows db') = [new_row (Suc (db_seq db)) e n t]"
proof -
  from insert_or_replace_rows [OF assms(1)] assms(2) obtain n where
    n: "t_name t = Some n" and
    rows: "db_rows db' = filter (\<lambda>r. row_ein r \<noteq> e) (db_rows db) @ [new_row (Suc (db_seq db)) e n t]"
    by auto
  have "filter (\<lambda>r. row_ein r = e) (filter (\<lambda>r. row_ein r \<noteq> e) (db_rows db)) = []"
    by (simp add: filter_empty_conv)
  then show ?thesis
    using n by (simp add: rows row_ein_new_row)
qed

lemma executemany_last_wins:
  assumes run: "executemany db (xs @ t # ys) = Inr db'"
    and ein: "t_ein t = Some e"
    and later: "\<forall>u\<in>set ys. t_ein u \<noteq> Some e"
  shows "\<exists>i n. t_name t = Some n \<and>
           filter (\<lambda>r. row_ein r = e) (db_rows db') = [new_row i e n t]"
proof -
  from run obtain db1 where
    first: "executemany db xs = Inr db1" and rest: "executemany db1 (t # ys) = Inr db'"
    by (auto simp: executemany_append split: sum.splits)
  from rest obtain db2 where
    one: "insert_or_replace db1 t = Inr db2" and tail: "executemany db2 ys = Inr db'"
    by (auto split: sum.splits)
  from insert_or_replace_same [OF one ein] obtain n where
    n: "t_name t = Some n" and
    row: "filter (\<lambda>r. row_ein r = e) (db_rows db2) = [new_row (Suc (db_seq db1)) e n t]"
    by blast
  have "filter (\<lambda>r. row_ein r = e) (db_rows db') = filter (\<lambda>r. row_ein r = e) (db_rows db2)"
    using executemany_other [OF tail later] .
  then show ?thesis
    using n row by auto
qed

lemma insert_organizations_last_wins:
  assumes run: "insert_organizations db (before @ org # after) bs = (db', Inr n)"
    and bs: "0 < bs"
    and ein: "py_get (org_ein org) = Some e"
    and later: "\<forall>x\<in>set after. py_get (org_ein x) \<noteq> Some e"
  shows "n = length (before @ org # after) \<and>
         (\<exists>i nm. py_get (org_name org) = Some nm \<and>
            filter (\<lambda>r. row_ein r = e) (db_rows db') = [new_row i e nm (make_data_tuple org)])"
proof -
  have "insert_batches db (before @ org # after) (nat bs) 0 = (db', Inr n)"
    using run bs by (simp add: insert_organizations_def)
  then have ex: "executemany db (map make_data_tuple (before @ org # after)) = Inr db'"
    and n: "n = length (before @ org # after)"
    using insert_batches_success [of db "before @ org # after" "nat bs" 0 db' n] bs by auto
  have ex': "executemany db (map make_data_tuple before @ make_data_tuple org # map make_data_tuple after) = Inr db'"
    using ex by simp
  have e1: "t_ein (make_data_tuple org) = Some e"
    using ein by (simp add: make_data_tuple_def)
  have e2: "\<forall>u\<in>set (map make_data_tuple after). t_ein u \<noteq> Some e"
    using later by (simp add: make_data_tuple_def)
  from executemany_last_wins [OF ex' e1 e2] obtain i nm where
    "t_name (make_data_tuple org) = Some nm"
    "filter (\<lambda>r. row_ein r = e) (db_rows db') = [new_row i e nm (make_data_tuple org)]"
    by blast
  then show ?thesis
    using n by (auto simp: make_data_tuple_def)
qed

lemma new_row_fields:
  assumes "py_get (org_name org) = Some nm" and "r = new_row i e nm (make_data_tuple org)"
  shows "row_ein r = e \<and>
         Some (row_name r) = py_get (org_name org) \<and>
         row_legal_name r = py_get (org_legal_name org) \<and>
         row_street r = py_get (org_street org) \<and>
         row_city r = py_get (org_city org) \<and>
         row_state r = py_get (org_state org) \<and>
         row_zip r = py_get (org_zip org) \<and>
         row_ntee_code r = py_get (org_ntee_code org) \<and>
         row_subsection_code r = py_get (org_subsection_code org) \<and>
         row_foundation_code r = py_get (org_foundation_code org) \<and>
         row_asset_amount r = py_get_default (org_asset_amount org) 0 \<and>
         row_income_amount r = py_get_default (org_income_amount org) 0 \<and>
         row_revenue_amount r = py_get_default (org_revenue_amount org) 0 \<and>
         row_tax_exempt_status r = py_get (org_tax_exempt_status org) \<and>
         row_ruling_date r = py_get (org_ruling_date org) \<and>
         row_data_source r = py_get_default (org_data_source org) ''IRS'' \<and>
         row_country r = Some ''US'' \<and>
         row_ntee_description r = None \<and>
         row_organization_type r = None \<and>
         row_tax_period r = None \<and>
         row_revocation_date r = None \<and>
         row_website r = None \<and>
         row_email r = None \<and>
         row_phone r = None"
  using assms by (simp add: new_row_def make_data_tuple_def)

lemma insert_organizations_replaces:
  assumes run: "insert_organizations db (before @ org # after) bs = (db', Inr n)"
    and bs: "0 < bs"
    and ein: "py_get (org_ein org) = Some e"
    and later: "\<forall>x\<in>set after. py_get (org_ein x) \<noteq> Some e"
  shows "\<exists>r. filter (\<lambda>r. row_ein r = e) (db_rows db') = [r] \<and>
           row_ein r = e \<and>
           Some (row_name r) = py_get (org_name org) \<and>
           row_legal_name r = py_get (org_legal_name org) \<and>
           row_street r = py_get (org_street org) \<and>
           row_city r = py_get (org_city org) \<and>
           row_state r = py_get (org_state org) \<and>
           row_zip r = py_get (org_zip org) \<and>
           row_ntee_code r = py_get (org_ntee_code org) \<and>
           row_subsection_code r = py_get (org_subsection_code org) \<and>
           row_foundation_code r = py_get (org_foundation_code org) \<and>
           row_asset_amount r = py_get_default (org_asset_amount org) 0 \<and>
           row_income_amount r = py_get_default (org_income_amount org) 0 \<and>
           row_revenue_amount r = py_get_default (org_revenue_amount org) 0 \<and>
           row_tax_exempt_status r = py_get (org_tax_exempt_status org) \<and>
           row_ruling_date r = py_get (org_ruling_date org) \<and>
           row_data_source r = py_get_default (org_data_source org) ''IRS'' \<and>
           row_country r = Some ''US'' \<and>
           row_ntee_description r = None \<and>
           row_organization_type r = None \<and>
           row_tax_period r = None \<and>
           row_revocation_date r = None \<and>
           row_website r = None \<and>
           row_email r = None \<and>
           row_phone r = None"
proof -
  from insert_organizations_last_wins [OF run bs ein later] obtain i nm where
    nm: "py_get (org_name org) = Some nm" and
    one: "filter (\<lambda>r. row_ein r = e) (db_rows db') = [new_row i e nm (make_data_tuple org)]"
    by blast
  show ?thesis
    using one new_row_fields [OF nm refl, of i e]
    by (intro exI [of _ "new_row i e nm (make_data_tuple org)"] conjI) simp_all
qed



lemma upsert_calls_init_distinct:
  "distinct (map row_ein (db_rows (upsert_calls init_database calls)))"
  by (rule upsert_calls_distinct) (simp add: init_database_def)

text \<open>
  Claim C1. After any sequence of bulk-upsert calls on a fresh database no two
  rows have the same EIN, and every single call keeps this property (also a
  call that raises). When a call with a positive batch size returns, then for
  every record of its input that no later record of the input shares its EIN
  with, the table holds exactly one row with that EIN, and every column of
  this row comes from that record: the sixteen listed columns hold what the
  record has under the key (\<open>NULL\<close> for a key it lacks, 0 for a missing amount
  and \<open>IRS\<close> for a missing data source), and the columns the statement does
  not list hold their defaults. Nothing of a row that had the EIN before is
  left.
\<close>

theorem upsert_one_row_per_ein:
  "distinct (map row_ein (db_rows (upsert_calls init_database calls))) \<and>
   (distinct (map row_ein (db_rows db)) \<longrightarrow>
      distinct (map row_ein (db_rows (fst (insert_organizations db organizations batch_size))))) \<and>
   (insert_organizations db (before @ org # after) batch_size = (db', Inr n) \<and>
    0 < batch_size \<and> py_get (org_ein org) = Some e \<and>
    (\<forall>x\<in>set after. py_get (org_ein x) \<noteq> Some e) \<longrightarrow>
      (\<exists>r. filter (\<lambda>r. row_ein r = e) (db_rows db') = [r] \<and>
         row_ein r = e \<and>
         Some (row_name r) = py_get (org_name org) \<and>
         row_legal_name r = py_get (org_legal_name org) \<and>
         row_street r = py_get (org_street org) \<and>
         row_city r = py_get (org_city org) \<and>
         row_state r = py_get (org_state org) \<and>
         row_zip r = py_get (org_zip org) \<and>
         row_ntee_code r = py_get (org_ntee_code org) \<and>
         row_subsection_code r = py_get (org_subsection_code org) \<and>
         row_foundation_code r = py_get (org_foundation_code org) \<and>
         row_asset_amount r = py_get_default (org_asset_amount org) 0 \<and>
         row_income_amount r = py_get_default (org_income_amount org) 0 \<and>
         row_revenue_amount r = py_get_default (org_revenue_amount org) 0 \<and>
         row_tax_exempt_status r = py_get (org_tax_exempt_status org) \<and>
         row_ruling_date r = py_get (org_ruling_date org) \<and>
         row_data_source r = py_get_default (org_data_source org) ''IRS'' \<and>
         row_country r = Some ''US'' \<and>
         row_ntee_description r = None \<and>
         row_organization_type r = None \<and>
         row_tax_period r = None \<and>
         row_revocation_date r = None \<and>
         row_website r = None \<and>
         row_email r = None \<and>
         row_phone r = None))"
proof (intro conjI impI)
  show "distinct (map row_ein (db_rows (upsert_calls init_database calls)))"
    by (rule upsert_calls_init_distinct)
next
  assume "distinct (map row_ein (db_rows db))"
  then show "distinct (map row_ein (db_rows (fst (insert_organizations db organizations batch_size))))"
    by (rule insert_organizations_distinct)
next
  assume h: "insert_organizations db (before @ org # after) batch_size = (db', Inr n) \<and>
    0 < batch_size \<and> py_get (org_ein org) = Some e \<and>
    (\<forall>x\<in>set after. py_get (org_ein x) \<noteq> Some e)"
  show "\<exists>r. filter (\<lambda>r. row_ein r = e) (db_rows db') = [r] \<and>
         row_ein r = e \<and>
         Some (row_name r) = py_get (org_name org) \<and>
         row_legal_name r = py_get (org_legal_name org) \<and>
         row_street r = py_get (org_street org) \<and>
         row_city r = py_get (org_city org) \<and>
         row_state r = py_get (org_state org) \<and>
         row_zip r = py_get (org_zip org) \<and>
         row_ntee_code r = py_get (org_ntee_code org) \<and>
         row_subsection_code r = py_get (org_subsection_code org) \<and>
         row_foundation_code r = py_get (org_foundation_code org) \<and>
         row_asset_amount r = py_get_default (org_asset_amount org) 0 \<and>
         row_income_amount r = py_get_default (org_income_amount org) 0 \<and>
         row_revenue_amount r = py_get_default (org_revenue_amount org) 0 \<and>
         row_tax_exempt_status r = py_get (org_tax_exempt_status org) \<and>
         row_ruling_date r = py_get (org_ruling_date org) \<and>
         row_data_source r = py_get_default (org_data_source org) ''IRS'' \<and>
         row_country r = Some ''US'' \<and>
         row_ntee_description r = None \<and>
         row_organization_type r = None \<and>
         row_tax_period r = None \<and>
         row_revocation_date r = None \<and>
         row_website r = None \<and>
         row_email r = None \<and>
         row_phone r = None"
    using h by (intro insert_organizations_replaces [of db before org after batch_size db' n e])
      simp_all
qed

text \<open>
  Claim C1 at the documented scenario: the same EIN ingested twice with
  different names, in one call and in two calls, leaves one row bearing the
  second name. The first record has a city, a state, an NTEE code and an
  asset amount; the second has another city and state and neither an NTEE
  code nor an asset amount: the row left has the second record's city and
  state, no NTEE code and the default asset amount.
\<close>

theorem upsert_one_row_per_ein_witness:
  "map (\<lambda>r. (row_name r, row_city r, row_state r, row_ntee_code r, row_asset_amount r,
             row_revenue_amount r, row_data_source r, row_country r))
     (filter (\<lambda>r. row_ein r = ''123456789'')
        (db_rows (fst (insert_organizations init_database
           [(example_org ''123456789'' ''First Name'' 0)
              \<lparr> org_city := Value (Some ''Boston''), org_state := Value (Some ''MA''),
                org_ntee_code := Value (Some ''B300''), org_asset_amount := Value (Some 25000) \<rparr>,
            (example_org ''123456789'' ''Second Name'' 5000)
              \<lparr> org_city := Value (Some ''Albany''), org_state := Value (Some ''NY'') \<rparr>]
           1000))))
     = [(''Second Name'', Some ''Albany'', Some ''NY'', None, Some 0, Some 5000, Some ''IRS'',
         Some ''US'')] \<and>
   map row_name (db_rows (upsert_calls init_database
      [([example_org ''123456789'' ''First Name'' 0], 1000),
       ([example_org ''123456789'' ''Second Name'' 5000], 1000)]))
     = [''Second Name''] \<and>
   distinct (map row_ein (db_rows (upsert_calls init_database
      [([example_org ''123456789'' ''First Name'' 0], 1000),
       ([example_org ''123456789'' ''Second Name'' 5000], 1000)])))"
proof -
  let ?a = "(example_org ''123456789'' ''First Name'' 0)
              \<lparr> org_city := Value (Some ''Boston''), org_state := Value (Some ''MA''),
                org_ntee_code := Value (Some ''B300''), org_asset_amount := Value (Some 25000) \<rparr>"
  let ?b = "(example_org ''123456789'' ''Second Name'' 5000)
              \<lparr> org_city := Value (Some ''Albany''), org_state := Value (Some ''NY'') \<rparr>"
  let ?a' = "example_org ''123456789'' ''First Name'' 0"
  let ?b' = "example_org ''123456789'' ''Second Name'' 5000"
  let ?run = "insert_organizations init_database ([?a] @ ?b # []) 1000"
  note ev = insert_organizations_def insert_or_replace_def make_data_tuple_def
    example_org_def init_database_def new_row_def sqlite_integer_def
  have h: "?run = (fst ?run, Inr 2) \<and> (0::int) < 1000 \<and>
           py_get (org_ein ?b) = Some ''123456789'' \<and>
           (\<forall>x\<in>set []. py_get (org_ein x) \<noteq> Some ''123456789'')"
    by (simp add: ev)
  from upsert_one_row_per_ein [where db = init_database and before = "[?a]" and org = ?b
      and after = "[]" and batch_size = 1000 and db' = "fst ?run" and n = 2
      and e = "''123456789''"] h
  obtain r where
    r: "filter (\<lambda>r. row_ein r = ''123456789'') (db_rows (fst ?run)) = [r]" and
    f: "Some (row_name r) = py_get (org_name ?b)"
       "row_city r = py_get (org_city ?b)"
       "row_state r = py_get (org_state ?b)"
       "row_ntee_code r = py_get (org_ntee_code ?b)"
       "row_asset_amount r = py_get_default (org_asset_amount ?b) 0"
       "row_revenue_amount r = py_get_default (org_revenue_amount ?b) 0"
       "row_data_source r = py_get_default (org_data_source ?b) ''IRS''"
       "row_country r = Some ''US''"
    by blast
  have name: "row_name r = ''Second Name''"
    using f(1) by (simp add: example_org_def)
  have one: "map (\<lambda>r. (row_name r, row_city r, row_state r, row_ntee_code r, row_asset_amount r,
                        row_revenue_amount r, row_data_source r, row_country r))
               (filter (\<lambda>r. row_ein r = ''123456789'') (db_rows (fst ?run)))
             = [(''Second Name'', Some ''Albany'', Some ''NY'', None, Some 0, Some 5000,
                 Some ''IRS'', Some ''US'')]"
    unfolding r using name f(2-8) by (simp add: example_org_def)
  have two: "map row_name (db_rows (upsert_calls init_database [([?a'], 1000), ([?b'], 1000)]))
               = [''Second Name'']"
    by (simp add: ev)
  have three: "distinct (map row_ein (db_rows (upsert_calls init_database [([?a'], 1000), ([?b'], 1000)])))"
    using upsert_one_row_per_ein [where calls = "[([?a'], 1000), ([?b'], 1000)]"]
    by blast
  show ?thesis
    using one two three by simp
qed




section \<open>Verification: the query engine, the statistics and the endpoint\<close>

lemma search_without_query:
  assumes "bindable min_revenue" and "bindable max_revenue"
    and "bindable min_assets" and "bindable max_assets"
    and "sqlite_integer limit" and "sqlite_integer offset"
  shows "search_organizations fts db None state city ntee_code min_revenue max_revenue
       min_assets max_assets limit offset =
     Inr (limit_offset limit offset
            (order_by_revenue_desc
               (satisfying (filter_conditions state city ntee_code min_revenue max_revenue
                              min_assets max_assets) (db_rows db))),
          length (satisfying (filter_conditions state city ntee_code min_revenue max_revenue
                                min_assets max_assets) (db_rows db)))"
  using assms by (simp add: search_organizations_def Let_def)


lemma length_order_by_revenue_desc: "length (order_by_revenue_desc rs) = length rs"
  by (simp add: order_by_revenue_desc_def)

lemma descending_order_by_revenue_desc:
  "sorted_wrt (\<lambda>a b. row_revenue_amount b \<le> row_revenue_amount a) (order_by_revenue_desc rs)"
proof -
  have "sorted (map row_revenue_amount (sort_key row_revenue_amount rs))"
    by (rule sorted_sort_key)
  then have "sorted_wrt (\<lambda>a b. row_revenue_amount a \<le> row_revenue_amount b)
               (sort_key row_revenue_amount rs)"
    by (simp add: sorted_wrt_map)
  then show ?thesis
    by (simp add: order_by_revenue_desc_def sorted_wrt_rev)
qed

lemma descending_limit_offset:
  assumes "sorted_wrt P xs"
  shows "sorted_wrt P (limit_offset limit offset xs)"
  using assms by (simp add: limit_offset_def Let_def sorted_wrt_take sorted_wrt_drop)


lemma length_limit_offset_first_page:
  assumes "0 \<le> limit"
  shows "length (limit_offset limit 0 xs) = min (nat limit) (length xs)"
  using assms by (simp add: limit_offset_def Let_def)











lemma example_corpus_rows:
  "db_rows example_corpus =
     [new_row 1 ''000000001'' ''Org One'' (make_data_tuple (example_org ''000000001'' ''Org One'' 0)),
      new_row 2 ''000000002'' ''Org Two'' (make_data_tuple (example_org ''000000002'' ''Org Two'' 40000)),
      new_row 3 ''000000003'' ''Org Three'' (make_data_tuple (example_org ''000000003'' ''Org Three'' 300000)),
      new_row 4 ''000000004'' ''Org Four'' (make_data_tuple (example_org ''000000004'' ''Org Four'' 2000000)),
      new_row 5 ''000000005'' ''Org Five'' (make_data_tuple (example_org ''000000005'' ''Org Five'' 8000000))]"
  by (simp add: example_corpus_def insert_organizations_def insert_or_replace_def
        init_database_def make_data_tuple_def example_org_def new_row_def sqlite_integer_def)

lemma example_revenues:
  "map row_revenue_amount (db_rows example_corpus)
     = [Some 0, Some 40000, Some 300000, Some 2000000, Some 8000000]"
  by (simp add: example_corpus_rows new_row_def make_data_tuple_def example_org_def)





lemma revenue_range_buckets:
  "(v = 0 \<longrightarrow> revenue_range (Some v) = ''Zero'') \<and>
   (1 \<le> v \<and> v \<le> 49999 \<longrightarrow> revenue_range (Some v) = ''<$50K'') \<and>
   (50000 \<le> v \<and> v \<le> 249999 \<longrightarrow> revenue_range (Some v) = ''$50K-$250K'') \<and>
   (250000 \<le> v \<and> v \<le> 999999 \<longrightarrow> revenue_range (Some v) = ''$250K-$1M'') \<and>
   (1000000 \<le> v \<and> v \<le> 4999999 \<longrightarrow> revenue_range (Some v) = ''$1M-$5M'') \<and>
   (5000000 \<le> v \<longrightarrow> revenue_range (Some v) = ''>$5M'')"
  by (simp add: revenue_range_def)

lemma revenue_range_label: "revenue_range v \<in> set range_labels"
  by (simp add: revenue_range_def range_labels_def split: option.splits)

lemma revenue_distribution_entry:
  "(label, n) \<in> set (revenue_distribution db) \<longleftrightarrow>
     label \<in> set range_labels \<and> 0 < n \<and>
     n = length (filter (\<lambda>r. revenue_range (row_revenue_amount r) = label) (db_rows db))"
  by (auto simp: revenue_distribution_def)

lemma revenue_distribution_no_zero: "(label, 0) \<notin> set (revenue_distribution db)"
  by (simp add: revenue_distribution_entry)

lemma distinct_range_labels: "distinct range_labels"
  by (simp add: range_labels_def)

lemma bucket_counts_sum:
  "sum_list (map (\<lambda>label. length (filter (\<lambda>r. revenue_range (row_revenue_amount r) = label) rs))
               range_labels) = length rs"
proof (induction rs)
  case Nil
  then show ?case by (simp add: range_labels_def)
next
  case (Cons r rs)
  have "revenue_range (row_revenue_amount r) \<in> set range_labels"
    by (rule revenue_range_label)
  then show ?case
    using Cons by (auto simp: range_labels_def)
qed

lemma sum_list_positive_entries:
  "sum_list (map snd (filter (\<lambda>(label, n). 0 < n) (xs :: (string \<times> nat) list))) = sum_list (map snd xs)"
  by (induction xs) auto

lemma revenue_distribution_total:
  "sum_list (map snd (revenue_distribution db)) = length (db_rows db)"
proof -
  have "sum_list (map snd (revenue_distribution db))
          = sum_list (map snd (map (\<lambda>label. (label, length (filter (\<lambda>r. revenue_range (row_revenue_amount r) = label) (db_rows db)))) range_labels))"
    unfolding revenue_distribution_def by (rule sum_list_positive_entries)
  also have "\<dots> = length (db_rows db)"
    using bucket_counts_sum [of "db_rows db"] by (simp add: comp_def)
  finally show ?thesis .
qed

lemma example_distribution:
  "revenue_distribution example_corpus =
     [(''Zero'', 1), (''<$50K'', 1), (''$250K-$1M'', 1), (''$1M-$5M'', 1), (''>$5M'', 1)]"
  by (simp add: revenue_distribution_def range_labels_def revenue_range_def
        example_corpus_rows new_row_def make_data_tuple_def example_org_def)

lemma api_rejects:
  assumes "limit < 1 \<or> 500 < limit \<or> offset < 0"
  shows "api_search fts db q state city ntee min_revenue max_revenue min_assets max_assets
           limit offset = (ValidationFailure, [])"
  using assms by (simp add: api_search_def)






lemma search_query_state_ambiguous:
  assumes "q \<noteq> []" and "s \<noteq> []"
  shows "search_organizations fts db (Some q) (Some s) city ntee_code min_revenue max_revenue
           min_assets max_assets limit offset = Inl OperationalError"
  using assms by (simp add: search_organizations_def Let_def)

lemma search_total_independent:
  assumes "sqlite_integer limit" and "sqlite_integer offset"
    and "sqlite_integer limit'" and "sqlite_integer offset'"
  shows "map_sum id snd (search_organizations fts db query state city ntee_code min_revenue
           max_revenue min_assets max_assets limit offset)
     = map_sum id snd (search_organizations fts db query state city ntee_code min_revenue
           max_revenue min_assets max_assets limit' offset')"
  using assms by (simp add: search_organizations_def Let_def split: option.splits)

lemma search_no_filters:
  assumes "0 \<le> limit" and "sqlite_integer limit"
  shows "\<exists>results. search_organizations fts db None None None None None None None None limit 0
                      = Inr (results, length (db_rows db)) \<and>
                    length results = min (nat limit) (length (db_rows db)) \<and>
                    sorted_wrt (\<lambda>a b. row_revenue_amount b \<le> row_revenue_amount a) results"
proof -
  have all: "satisfying (filter_conditions None None None None None None None) (db_rows db) = db_rows db"
    by (simp add: satisfying_def filter_conditions_def)
  have zero: "sqlite_integer 0"
    by (simp add: sqlite_integer_def)
  show ?thesis
    using assms zero
    by (simp add: search_without_query all length_limit_offset_first_page
          length_order_by_revenue_desc descending_limit_offset descending_order_by_revenue_desc)
qed

text \<open>
  Claim C6 as stated fails on its own example: a bucket without organizations
  produces no group, so it is missing from the report instead of being
  reported with the count 0.
\<close>

theorem revenue_distribution_counterexample:
  "revenue_distribution example_corpus =
     [(''Zero'', 1), (''<$50K'', 1), (''$250K-$1M'', 1), (''$1M-$5M'', 1), (''>$5M'', 1)] \<and>
   (''$50K-$250K'', 0) \<notin> set (revenue_distribution example_corpus) \<and>
   map_of (revenue_distribution example_corpus) ''$50K-$250K'' = None"
  by (simp add: example_distribution)

text \<open>
  Claim C6, amended. The revenue distribution labels an amount by the fixed
  boundaries: 0 is \<open>Zero\<close>, 1 to 49999 is \<open><$50K\<close>, 50000 to 249999 is
  \<open>$50K-$250K\<close>, 250000 to 999999 is \<open>$250K-$1M\<close>, 1000000 to 4999999 is
  \<open>$1M-$5M\<close> and 5000000 or more is \<open>>$5M\<close>. The report has one entry for each
  label that at least one organization bears, with the number of these
  organizations; a bucket without organizations has no entry. The counts add
  up to the size of the corpus. For revenues 0, 40000, 300000, 2000000 and
  8000000 the report is Zero:1, <$50K:1, $250K-$1M:1, $1M-$5M:1, >$5M:1.
\<close>

theorem revenue_distribution_buckets:
  "(v = 0 \<longrightarrow> revenue_range (Some v) = ''Zero'') \<and>
   (1 \<le> v \<and> v \<le> 49999 \<longrightarrow> revenue_range (Some v) = ''<$50K'') \<and>
   (50000 \<le> v \<and> v \<le> 249999 \<longrightarrow> revenue_range (Some v) = ''$50K-$250K'') \<and>
   (250000 \<le> v \<and> v \<le> 999999 \<longrightarrow> revenue_range (Some v) = ''$250K-$1M'') \<and>
   (1000000 \<le> v \<and> v \<le> 4999999 \<longrightarrow> revenue_range (Some v) = ''$1M-$5M'') \<and>
   (5000000 \<le> v \<longrightarrow> revenue_range (Some v) = ''>$5M'') \<and>
   ((label, n) \<in> set (revenue_distribution db) \<longleftrightarrow>
      label \<in> set range_labels \<and> 0 < n \<and>
      n = length (filter (\<lambda>r. revenue_range (row_revenue_amount r) = label) (db_rows db))) \<and>
   sum_list (map snd (revenue_distribution db)) = length (db_rows db) \<and>
   revenue_distribution example_corpus =
     [(''Zero'', 1), (''<$50K'', 1), (''$250K-$1M'', 1), (''$1M-$5M'', 1), (''>$5M'', 1)]"
  using revenue_range_buckets [of v] revenue_distribution_entry [of label n db]
    revenue_distribution_total [of db] example_distribution
  by blast

text \<open>Claim C6 (amended) at the amounts on both sides of every boundary.\<close>

theorem revenue_distribution_buckets_witness:
  "revenue_range (Some 0) = ''Zero'' \<and>
   revenue_range (Some 1) = ''<$50K'' \<and>
   revenue_range (Some 49999) = ''<$50K'' \<and>
   revenue_range (Some 50000) = ''$50K-$250K'' \<and>
   revenue_range (Some 249999) = ''$50K-$250K'' \<and>
   revenue_range (Some 250000) = ''$250K-$1M'' \<and>
   revenue_range (Some 999999) = ''$250K-$1M'' \<and>
   revenue_range (Some 1000000) = ''$1M-$5M'' \<and>
   revenue_range (Some 4999999) = ''$1M-$5M'' \<and>
   revenue_range (Some 5000000) = ''>$5M''"
  using revenue_distribution_buckets [where v = 0]
    revenue_distribution_buckets [where v = 1]
    revenue_distribution_buckets [where v = 49999]
    revenue_distribution_buckets [where v = 50000]
    revenue_distribution_buckets [where v = 249999]
    revenue_distribution_buckets [where v = 250000]
    revenue_distribution_buckets [where v = 999999]
    revenue_distribution_buckets [where v = 1000000]
    revenue_distribution_buckets [where v = 4999999]
    revenue_distribution_buckets [where v = 5000000]
  by simp




text \<open>
  Claim C2 fails on the code when a full-text query is combined with a state
  filter (or a city filter): the joined statement names the column without a
  table, both joined tables have it, and the search raises instead of
  returning a page and a total; the endpoint answers with a failure. Without
  such a combination the total is the same for every limit and offset that
  can be bound (\<open>search_total_independent\<close>) and the search without filters
  returns the first \<open>min(L, size)\<close> rows by descending revenue with the corpus
  size as total (\<open>search_no_filters\<close>).
\<close>

theorem search_query_with_state_raises:
  "search_organizations fts db (Some ''Hands'') (Some ''NY'') None None None None None None 50 0
     = Inl OperationalError \<and>
   fst (api_search fts db (Some ''Hands'') (Some ''NY'') None None None None None None 50 0)
     = SearchFailed"
proof -
  have "search_organizations fts db (Some ''Hands'') (Some ''NY'') None None None None None None 50 0
          = Inl OperationalError"
    by (rule search_query_state_ambiguous) simp_all
  then show ?thesis
    by (simp add: api_search_def)
qed

text \<open>Claim C2's failing input on the example corpus.\<close>

theorem search_query_with_state_raises_witness:
  "search_organizations no_fts example_corpus (Some ''Hands'') (Some ''NY'')
       None None None None None None 50 0
     = Inl OperationalError"
  using search_query_with_state_raises [of no_fts example_corpus] by blast

end
